theory Spec2Isabelle
  imports Main
begin

section \<open>Data model of the presence service\<close>

text \<open>
  The service is a single mutable TypeScript object driven by callbacks. It is modelled by
  a record of its fields and one function per method, each taking the service and
  returning the updated service. Conventions of the model:
  \<^item> Firebase and React Native handles (typed \<open>any\<close> in the source) are opaque numbers
    under \<open>option\<close>; \<open>None\<close> stands for an absent (falsy) handle.
  \<^item> The JavaScript numbers of the configuration and the retry counter are integers that a
    double holds exactly, and comparing them is exact. The retry delay is computed with
    \<open>Math.pow\<close>, \<open>*\<close> and \<open>Math.min\<close> on doubles and can leave the finite range: it is a
    \<open>js_number\<close>, which has the two infinities and \<open>NaN\<close> beside the finite values.
  \<^item> An \<open>async\<close> method never throws to its caller: it returns a promise. A call is
    modelled run to completion, the answers of the store to the operations it awaits being
    given as an argument (\<open>store_reply\<close>), and its promise is the first component of the
    result: \<open>Inr ()\<close> fulfilled, \<open>Inl e\<close> rejected with \<open>e\<close>.
  \<^item> What the collaborators see is recorded in two logs kept in the record: the operations
    issued to the store (\<open>store_log\<close>) and the calls of the connection-status listeners
    with the status they were shown (\<open>notifications\<close>). Listener callbacks are observers:
    they do not call back into the service. The unsubscribe functions returned by
    \<open>onAuthStateChanged\<close> and \<open>onValue\<close> are callable and do not throw. What
    \<open>AppState.addEventListener\<close> returns, and \<open>appStateUnsubscribe\<close> holds, is a
    subscription object with a \<open>remove\<close> method (the \<open>react-native\<close> mock of the
    repository's test setup returns \<open>{ remove }\<close>): it is not a function.
  \<^item> A timer handle holds the delay the timer was started with. The retry timer clears
    its handle when it fires, so the handle tells whether it is pending; the idle timer
    does not, so the environment's knowledge that the timer behind \<open>awayTimeout\<close> has
    neither fired nor been cleared is the extra field \<open>awayPending\<close>.
\<close>

type_synonym handle = nat
type_synonym ref = string
type_synonym custom_data = "(string \<times> string) list"

text \<open>\<open>PresenceState['state']\<close>, the union of four string literals.\<close>

datatype presence_state = Online | Offline | Away | Busy

fun state_name :: "presence_state \<Rightarrow> string" where
  "state_name Online = ''online''"
| "state_name Offline = ''offline''"
| "state_name Away = ''away''"
| "state_name Busy = ''busy''"

text \<open>
  \<open>PresenceError\<close> with its message, code and optional wrapped error; \<open>ExternalError\<close> is
  any error raised by a collaborator (the store rejecting a write); \<open>TypeError\<close> is the
  error of the language itself, raised by calling a value that is not a function.
\<close>

datatype js_error =
    PresenceError string string "js_error option"
  | ExternalError string
  | TypeError string

text \<open>The record written to the store; \<open>lastChanged\<close> is always the server-timestamp sentinel.\<close>

record PresenceState =
  state :: presence_state
  uid :: "string option"
  customData :: "custom_data option"

record ConnectionStatus =
  isConnected :: bool
  lastConnected :: "nat option"
  retryCount :: nat

text \<open>\<open>Required<PresenceConfig>\<close>: the configuration after the defaults are merged in.\<close>

record PresenceConfig =
  firebaseApp :: "handle option"
  database :: "handle option"
  auth :: "handle option"
  databasePath :: string
  offlineTimeout :: int
  retryInterval :: int
  maxRetries :: int
  debug :: bool
  customStates :: "string list"
  autoSetAway :: bool
  awayTimeoutMs :: int

text \<open>
  The argument of the constructor and of \<open>updateConfig\<close>: every key is optional, and a
  handle given under a key may itself be absent.
\<close>

record PartialConfig =
  p_firebaseApp :: "handle option option"
  p_database :: "handle option option"
  p_auth :: "handle option option"
  p_databasePath :: "string option"
  p_offlineTimeout :: "int option"
  p_retryInterval :: "int option"
  p_maxRetries :: "int option"
  p_debug :: "bool option"
  p_customStates :: "string list option"
  p_autoSetAway :: "bool option"
  p_awayTimeout :: "int option"

datatype store_op =
    Set ref PresenceState
  | OnDisconnectSet ref PresenceState
  | OnDisconnectCancel ref
  | OnValue ref
  | Off ref

text \<open>
  The answers of the store to one call of \<open>setPresenceState\<close>: \<open>None\<close> when the awaited
  operation resolves, \<open>Some e\<close> when it rejects with \<open>e\<close>.
\<close>

record store_reply =
  set_reply :: "js_error option"
  onDisconnect_reply :: "js_error option"

datatype promise = Fulfilled | Rejected js_error

text \<open>
  A double that is an integer, an infinity or \<open>NaN\<close>. The sign of zero is not kept: no
  operation of the program tells \<open>-0\<close> from \<open>0\<close>.
\<close>

datatype js_number = Finite int | PosInfinity | NegInfinity | NaN

record PresenceService =
  config :: PresenceConfig
  userRef :: "ref option"
  connectedRef :: "ref option"
  connectedListener :: "ref option"
  connectionStatus :: ConnectionStatus
  currentUser :: "string option"
  listeners :: "nat list"
  presenceListeners :: "(string \<times> nat list) list"
  authUnsubscribe :: "handle option"
  appStateUnsubscribe :: "handle option"
  initialized :: bool
  initPromise :: "promise option"
  setupInProgress :: bool
  currentSetupUid :: "string option"
  retryTimeout :: "js_number option"
  awayTimeout :: "int option"
  awayPending :: bool
  currentPresenceState :: presence_state
  store_log :: "store_op list"
  notifications :: "(nat \<times> ConnectionStatus) list"

section \<open>FirebaseValidator\<close>

definition validateConfig :: "PresenceConfig \<Rightarrow> js_error + unit" where
  "validateConfig c =
     (if firebaseApp c = None then
        Inl (PresenceError ''Firebase app is required'' ''MISSING_FIREBASE_APP'' None)
      else if database c = None then
        Inl (PresenceError ''Firebase database is required'' ''MISSING_DATABASE'' None)
      else if auth c = None then
        Inl (PresenceError ''Firebase auth is required'' ''MISSING_AUTH'' None)
      else Inr ())"

subsection \<open>Arithmetic on doubles\<close>

text \<open>
  Finite doubles lie strictly between \<open>-2 ^ 1024\<close> and \<open>2 ^ 1024\<close>. The two operations
  below are used on \<open>2 ^ attempt\<close> and on the product of an integer with a power of two;
  both are exact while they stay in that range and give an infinity of the right sign
  beyond it.
\<close>

definition double_bound :: int where
  "double_bound = 2 ^ 1024"

definition toDouble :: "int \<Rightarrow> js_number" where
  "toDouble i =
     (if double_bound \<le> i then PosInfinity
      else if i \<le> - double_bound then NegInfinity
      else Finite i)"

text \<open>\<open>Math.pow(2, n)\<close> for a counter \<open>n\<close>.\<close>

definition Math_pow2 :: "nat \<Rightarrow> js_number" where
  "Math_pow2 n = toDouble (2 ^ n)"

text \<open>The operator \<open>*\<close>: \<open>NaN\<close> is contagious, and zero times an infinity is \<open>NaN\<close>.\<close>

fun js_times :: "js_number \<Rightarrow> js_number \<Rightarrow> js_number" where
  "js_times NaN y = NaN"
| "js_times x NaN = NaN"
| "js_times (Finite a) (Finite b) = toDouble (a * b)"
| "js_times (Finite a) PosInfinity =
     (if a = 0 then NaN else if 0 < a then PosInfinity else NegInfinity)"
| "js_times (Finite a) NegInfinity =
     (if a = 0 then NaN else if 0 < a then NegInfinity else PosInfinity)"
| "js_times PosInfinity (Finite b) =
     (if b = 0 then NaN else if 0 < b then PosInfinity else NegInfinity)"
| "js_times NegInfinity (Finite b) =
     (if b = 0 then NaN else if 0 < b then NegInfinity else PosInfinity)"
| "js_times PosInfinity PosInfinity = PosInfinity"
| "js_times PosInfinity NegInfinity = NegInfinity"
| "js_times NegInfinity PosInfinity = NegInfinity"
| "js_times NegInfinity NegInfinity = PosInfinity"

text \<open>\<open>Math.min\<close> of two numbers: \<open>NaN\<close> if either is \<open>NaN\<close>.\<close>

fun Math_min :: "js_number \<Rightarrow> js_number \<Rightarrow> js_number" where
  "Math_min NaN y = NaN"
| "Math_min x NaN = NaN"
| "Math_min NegInfinity y = NegInfinity"
| "Math_min x NegInfinity = NegInfinity"
| "Math_min PosInfinity y = y"
| "Math_min x PosInfinity = x"
| "Math_min (Finite a) (Finite b) = Finite (min a b)"

text \<open>
  \<open>createRetryDelay(attempt, baseDelay = 1000)\<close>: the second argument is optional and
  defaults to 1000; the body is \<open>Math.min(baseDelay * Math.pow(2, attempt), 30000)\<close>.
\<close>

definition createRetryDelay :: "nat \<Rightarrow> int option \<Rightarrow> js_number" where
  "createRetryDelay attempt baseDelay =
     (let b = (case baseDelay of None \<Rightarrow> 1000 | Some d \<Rightarrow> d)
      in Math_min (js_times (Finite b) (Math_pow2 attempt)) (Finite 30000))"

section \<open>PresenceService\<close>

definition defaultConfig :: PresenceConfig where
  "defaultConfig =
     \<lparr>firebaseApp = None, database = None, auth = None,
      databasePath = ''presence'', offlineTimeout = 30000, retryInterval = 1000,
      maxRetries = 5, debug = False,
      customStates = [''online'', ''offline'', ''away'', ''busy''],
      autoSetAway = True, awayTimeoutMs = 300000\<rparr>"

text \<open>The object spread \<open>{ ...c, ...p }\<close>: a key present in \<open>p\<close> wins.\<close>

definition mergeConfig :: "PresenceConfig \<Rightarrow> PartialConfig \<Rightarrow> PresenceConfig" where
  "mergeConfig c p =
     \<lparr>firebaseApp = (case p_firebaseApp p of None \<Rightarrow> firebaseApp c | Some v \<Rightarrow> v),
      database = (case p_database p of None \<Rightarrow> database c | Some v \<Rightarrow> v),
      auth = (case p_auth p of None \<Rightarrow> auth c | Some v \<Rightarrow> v),
      databasePath = (case p_databasePath p of None \<Rightarrow> databasePath c | Some v \<Rightarrow> v),
      offlineTimeout = (case p_offlineTimeout p of None \<Rightarrow> offlineTimeout c | Some v \<Rightarrow> v),
      retryInterval = (case p_retryInterval p of None \<Rightarrow> retryInterval c | Some v \<Rightarrow> v),
      maxRetries = (case p_maxRetries p of None \<Rightarrow> maxRetries c | Some v \<Rightarrow> v),
      debug = (case p_debug p of None \<Rightarrow> debug c | Some v \<Rightarrow> v),
      customStates = (case p_customStates p of None \<Rightarrow> customStates c | Some v \<Rightarrow> v),
      autoSetAway = (case p_autoSetAway p of None \<Rightarrow> autoSetAway c | Some v \<Rightarrow> v),
      awayTimeoutMs = (case p_awayTimeout p of None \<Rightarrow> awayTimeoutMs c | Some v \<Rightarrow> v)\<rparr>"

definition emptyConfig :: PartialConfig where
  "emptyConfig =
     \<lparr>p_firebaseApp = None, p_database = None, p_auth = None, p_databasePath = None,
      p_offlineTimeout = None, p_retryInterval = None, p_maxRetries = None,
      p_debug = None, p_customStates = None, p_autoSetAway = None, p_awayTimeout = None\<rparr>"

subsection \<open>Initialisation\<close>

text \<open>
  The \<open>catch\<close> of \<open>_initialize\<close> rethrows a \<open>PresenceError\<close> as it is and wraps anything
  else.
\<close>

fun initError :: "js_error \<Rightarrow> js_error" where
  "initError (PresenceError m c e) = PresenceError m c e"
| "initError e = PresenceError ''Failed to initialize presence service'' ''INIT_FAILED'' (Some e)"

text \<open>
  \<open>_initialize\<close> (here \<open>initialize'\<close>) is \<open>async\<close> and awaits nothing: its body runs at
  the call, and what it throws rejects the promise it returns. \<open>initialize\<close> memoises that
  promise; the assignment \<open>this.initPromise = this._initialize()\<close> happens after the
  \<open>catch\<close> of \<open>_initialize\<close> has cleared the field, so a rejected promise stays memoised.
\<close>

definition initialize' :: "PresenceService \<Rightarrow> promise \<times> PresenceService" where
  "initialize' s =
     (if initialized s then (Fulfilled, s)
      else
        (case validateConfig (config s) of
           Inl e \<Rightarrow> (Rejected (initError e), s\<lparr>initialized := False, initPromise := None\<rparr>)
         | Inr _ \<Rightarrow>
             if auth (config s) = None \<or> database (config s) = None then
               (Rejected (initError
                  (PresenceError ''Firebase services not ready'' ''SERVICES_NOT_READY'' None)),
                s\<lparr>initialized := False, initPromise := None\<rparr>)
             else
               (Fulfilled,
                s\<lparr>initialized := True, authUnsubscribe := Some 0,
                  appStateUnsubscribe := Some 0\<rparr>)))"

definition initialize :: "PresenceService \<Rightarrow> promise \<times> PresenceService" where
  "initialize s =
     (case initPromise s of
        Some p \<Rightarrow> (p, s)
      | None \<Rightarrow> (case initialize' s of (p, s1) \<Rightarrow> (p, s1\<lparr>initPromise := Some p\<rparr>)))"

text \<open>
  The constructor sets the fields (\<open>initialFields\<close>: the field initialisers and the
  defaults merged with the given configuration) and calls \<open>this.initialize()\<close> without
  awaiting or catching the promise. Its result is \<open>Inl e\<close>
  when the constructor itself throws \<open>e\<close>, and \<open>Inr s\<close> when it returns the object \<open>s\<close>.
\<close>

definition initialFields :: "PartialConfig \<Rightarrow> PresenceService" where
  "initialFields p =
     \<lparr>config = mergeConfig defaultConfig p,
      userRef = None, connectedRef = None, connectedListener = None,
      connectionStatus = \<lparr>isConnected = False, lastConnected = None, retryCount = 0\<rparr>,
      currentUser = None, listeners = [], presenceListeners = [],
      authUnsubscribe = None, appStateUnsubscribe = None,
      initialized = False, initPromise = None, setupInProgress = False,
      currentSetupUid = None, retryTimeout = None, awayTimeout = None,
      awayPending = False, currentPresenceState = Offline,
      store_log = [], notifications = []\<rparr>"

definition PresenceService_constructor :: "PartialConfig \<Rightarrow> js_error + PresenceService" where
  "PresenceService_constructor p =
     (case initialize (initialFields p) of (_, s1) \<Rightarrow> Inr s1)"

text \<open>The object a \<open>new PresenceService(p)\<close> leaves behind.\<close>

definition constructed :: "PartialConfig \<Rightarrow> PresenceService" where
  "constructed p = snd (initialize (initialFields p))"

subsection \<open>Listeners\<close>

definition notifyConnectionListeners :: "PresenceService \<Rightarrow> PresenceService" where
  "notifyConnectionListeners s =
     s\<lparr>notifications := notifications s @ map (\<lambda>cb. (cb, connectionStatus s)) (listeners s)\<rparr>"

definition subscribeToConnectionStatus :: "PresenceService \<Rightarrow> nat \<Rightarrow> PresenceService" where
  "subscribeToConnectionStatus s cb =
     (let s1 = snd (initialize s);
          s2 = s1\<lparr>listeners := (if cb \<in> set (listeners s1) then listeners s1
                                 else listeners s1 @ [cb])\<rparr>
      in s2\<lparr>notifications := notifications s2 @ [(cb, connectionStatus s2)]\<rparr>)"

definition unsubscribe :: "PresenceService \<Rightarrow> nat \<Rightarrow> PresenceService" where
  "unsubscribe s cb = s\<lparr>listeners := removeAll cb (listeners s)\<rparr>"

subsection \<open>The presence writer\<close>

definition setPresenceState ::
  "PresenceService \<Rightarrow> presence_state \<Rightarrow> custom_data option \<Rightarrow> store_reply
     \<Rightarrow> (js_error + unit) \<times> PresenceService" where
  "setPresenceState s st cd rp =
     (case userRef s of
        None \<Rightarrow> (Inr (), s)
      | Some r \<Rightarrow>
          (case currentUser s of
             None \<Rightarrow> (Inr (), s)
           | Some u \<Rightarrow>
               if state_name st \<notin> set (customStates (config s)) then
                 (Inl (PresenceError (''Invalid presence state: '' @ state_name st)
                         ''INVALID_STATE'' None), s)
               else
                 (let s1 = s\<lparr>currentPresenceState := st\<rparr>;
                      presenceData = \<lparr>state = st, uid = Some u, customData = cd\<rparr>;
                      s2 = s1\<lparr>store_log := store_log s1 @ [Set r presenceData]\<rparr>
                  in case set_reply rp of
                       Some e \<Rightarrow>
                         (Inl (PresenceError ''Failed to set presence state''
                                 ''SET_STATE_FAILED'' (Some e)), s2)
                     | None \<Rightarrow>
                         if st = Online then
                           (let s3 = s2\<lparr>store_log := store_log s2 @
                                  [OnDisconnectSet r
                                     \<lparr>state = Offline, uid = Some u, customData = cd\<rparr>]\<rparr>
                            in case onDisconnect_reply rp of
                                 Some e \<Rightarrow>
                                   (Inl (PresenceError ''Failed to set presence state''
                                           ''SET_STATE_FAILED'' (Some e)), s3)
                               | None \<Rightarrow> (Inr (), s3))
                         else (Inr (), s2))))"

subsection \<open>Teardown\<close>

definition cleanup :: "PresenceService \<Rightarrow> PresenceService" where
  "cleanup s =
     (let s1 = (case connectedListener s of
                  None \<Rightarrow> s
                | Some c \<Rightarrow> s\<lparr>connectedListener := None, store_log := store_log s @ [Off c]\<rparr>);
          s2 = (case userRef s1 of
                  None \<Rightarrow> s1
                | Some r \<Rightarrow>
                    s1\<lparr>userRef := None, store_log := store_log s1 @ [OnDisconnectCancel r]\<rparr>);
          s3 = (if connectedRef s2 \<noteq> None then s2\<lparr>connectedRef := None\<rparr> else s2);
          s4 = (if retryTimeout s3 \<noteq> None then s3\<lparr>retryTimeout := None\<rparr> else s3);
          s5 = (if awayTimeout s4 \<noteq> None
                then s4\<lparr>awayTimeout := None, awayPending := False\<rparr> else s4);
          s6 = s5\<lparr>connectionStatus :=
                    (connectionStatus s5)\<lparr>isConnected := False, retryCount := 0\<rparr>\<rparr>
      in notifyConnectionListeners s6)"

text \<open>
  \<open>destroy\<close> calls \<open>this.authUnsubscribe()\<close>, then \<open>this.appStateUnsubscribe()\<close>. The
  second field holds the subscription object, so the call throws a \<open>TypeError\<close> and the
  statements after it (\<open>cleanup\<close>, the clearing of the listener sets, the reset of the
  initialisation) are not reached; they are reached when the field is empty. The result
  is \<open>Inl e\<close> when \<open>destroy\<close> throws \<open>e\<close>, with the service as the throw leaves it.
\<close>

definition destroy :: "PresenceService \<Rightarrow> (js_error + unit) \<times> PresenceService" where
  "destroy s =
     (let s1 = (if authUnsubscribe s \<noteq> None then s\<lparr>authUnsubscribe := None\<rparr> else s)
      in if appStateUnsubscribe s1 \<noteq> None then
           (Inl (TypeError ''this.appStateUnsubscribe is not a function''), s1)
         else
           (let s3 = cleanup s1
            in (Inr (), s3\<lparr>listeners := [], presenceListeners := [], initialized := False,
                           initPromise := None\<rparr>)))"

definition updateConfig :: "PresenceService \<Rightarrow> PartialConfig \<Rightarrow> PresenceService" where
  "updateConfig s newConfig = s\<lparr>config := mergeConfig (config s) newConfig\<rparr>"

subsection \<open>The retry scheduler\<close>

definition scheduleRetry :: "PresenceService \<Rightarrow> PresenceService" where
  "scheduleRetry s =
     (if retryTimeout s \<noteq> None
         \<or> int (retryCount (connectionStatus s)) \<ge> maxRetries (config s)
      then s
      else s\<lparr>retryTimeout :=
               Some (createRetryDelay (retryCount (connectionStatus s))
                       (Some (retryInterval (config s))))\<rparr>)"

definition incrementRetryCount :: "PresenceService \<Rightarrow> PresenceService" where
  "incrementRetryCount s =
     s\<lparr>connectionStatus :=
         (connectionStatus s)\<lparr>retryCount := retryCount (connectionStatus s) + 1\<rparr>\<rparr>"

text \<open>Both error handlers receive the error and use it for the debug log only.\<close>

definition handleConnectionError :: "PresenceService \<Rightarrow> js_error \<Rightarrow> PresenceService" where
  "handleConnectionError s error = scheduleRetry (incrementRetryCount s)"

definition handleSetupError :: "PresenceService \<Rightarrow> js_error \<Rightarrow> PresenceService" where
  "handleSetupError s error =
     (let s1 = incrementRetryCount s
      in if int (retryCount (connectionStatus s1)) < maxRetries (config s1)
         then scheduleRetry s1 else s1)"

subsection \<open>The idle timer\<close>

definition setupAwayTimer :: "PresenceService \<Rightarrow> PresenceService" where
  "setupAwayTimer s =
     (if \<not> autoSetAway (config s) then s
      else s\<lparr>awayTimeout := Some (awayTimeoutMs (config s)), awayPending := True\<rparr>)"

text \<open>The callback given to \<open>setTimeout\<close> by \<open>setupAwayTimer\<close>.\<close>

definition awayTimerCallback :: "PresenceService \<Rightarrow> store_reply \<Rightarrow> PresenceService" where
  "awayTimerCallback s rp =
     (if currentPresenceState s = Online then snd (setPresenceState s Away None rp) else s)"

subsection \<open>The session binder\<close>

text \<open>
  The \<open>try\<close> block of \<open>setupPresence\<close> throws when the database handle is absent and when
  the initial write is rejected; \<open>ref\<close> and \<open>onValue\<close> are taken not to throw. Both throws
  reach the same \<open>catch\<close>, which drops the store reference and calls \<open>handleSetupError\<close>;
  the \<open>finally\<close> releases the guard.
\<close>

definition setupPresence :: "PresenceService \<Rightarrow> string \<Rightarrow> store_reply \<Rightarrow> PresenceService" where
  "setupPresence s u rp =
     (if setupInProgress s then s
      else
        (let s1 = s\<lparr>setupInProgress := True\<rparr>;
             s' =
               (if database (config s1) = None then
                  handleSetupError (s1\<lparr>userRef := None\<rparr>)
                    (PresenceError ''Database not available'' ''DATABASE_UNAVAILABLE'' None)
                else
                  (let s2 = cleanup s1;
                       s3 = s2\<lparr>userRef := Some (databasePath (config s2) @ ''/'' @ u),
                               connectedRef := Some ''.info/connected''\<rparr>;
                       s4 = s3\<lparr>connectedListener := Some ''.info/connected'',
                               store_log := store_log s3 @ [OnValue ''.info/connected'']\<rparr>
                   in if userRef s4 \<noteq> None then
                        (case setPresenceState s4 Online None rp of
                           (Inr _, s5) \<Rightarrow> setupAwayTimer s5
                         | (Inl e, s5) \<Rightarrow> handleSetupError (s5\<lparr>userRef := None\<rparr>) e)
                      else s4))
         in s'\<lparr>setupInProgress := False\<rparr>))"

text \<open>The callback given to \<open>setTimeout\<close> by \<open>scheduleRetry\<close>.\<close>

definition retryTimerCallback :: "PresenceService \<Rightarrow> store_reply \<Rightarrow> PresenceService" where
  "retryTimerCallback s rp =
     (let s1 = s\<lparr>retryTimeout := None\<rparr>
      in case currentUser s1 of
           Some u \<Rightarrow>
             if \<not> isConnected (connectionStatus s1) then setupPresence s1 u rp else s1
         | None \<Rightarrow> s1)"

definition handleAuthStateChange ::
  "PresenceService \<Rightarrow> string option \<Rightarrow> store_reply \<Rightarrow> PresenceService" where
  "handleAuthStateChange s user rp =
     (case user of
        Some u \<Rightarrow>
          if Some u \<noteq> currentSetupUid s then
            setupPresence (s\<lparr>currentUser := Some u, currentSetupUid := Some u\<rparr>) u rp
          else s
      | None \<Rightarrow>
          (let s1 = s\<lparr>currentSetupUid := None\<rparr>
           in if currentUser s1 \<noteq> None then (cleanup s1)\<lparr>currentUser := None\<rparr> else s1))"

subsection \<open>Connectivity and application state\<close>

text \<open>
  \<open>now\<close> is the value of \<open>new Date()\<close>. The state re-asserted on a reconnect is
  \<open>this.currentPresenceState || 'online'\<close>: the fallback is taken for the empty string.
\<close>

definition handleConnectionChange ::
  "PresenceService \<Rightarrow> bool \<Rightarrow> nat \<Rightarrow> store_reply \<Rightarrow> PresenceService" where
  "handleConnectionChange s connected now rp =
     (let wasConnected = isConnected (connectionStatus s);
          s1 = s\<lparr>connectionStatus := (connectionStatus s)\<lparr>isConnected := connected\<rparr>\<rparr>;
          s2 = (if connected then
                  (let s1a = s1\<lparr>connectionStatus :=
                               (connectionStatus s1)\<lparr>lastConnected := Some now,
                                                      retryCount := 0\<rparr>\<rparr>
                   in if \<not> wasConnected \<and> userRef s1a \<noteq> None then
                        snd (setPresenceState s1a
                               (if state_name (currentPresenceState s1a) = []
                                then Online else currentPresenceState s1a) None rp)
                      else s1a)
                else s1);
          s3 = notifyConnectionListeners s2
      in if \<not> connected then scheduleRetry s3 else s3)"

datatype AppStateStatus = active | background | inactive | unknown | extension

definition handleAppStateChange ::
  "PresenceService \<Rightarrow> AppStateStatus \<Rightarrow> store_reply \<Rightarrow> PresenceService" where
  "handleAppStateChange s appState rp =
     (let s1 = (if awayTimeout s \<noteq> None
                then s\<lparr>awayTimeout := None, awayPending := False\<rparr> else s)
      in case appState of
           active \<Rightarrow> setupAwayTimer (snd (setPresenceState s1 Online None rp))
         | background \<Rightarrow> snd (setPresenceState s1 Offline None rp)
         | inactive \<Rightarrow> snd (setPresenceState s1 Offline None rp)
         | _ \<Rightarrow> s1)"

text \<open>The listener registered by \<open>setupAppStateListener\<close>.\<close>

definition appStateListener ::
  "PresenceService \<Rightarrow> AppStateStatus \<Rightarrow> store_reply \<Rightarrow> PresenceService" where
  "appStateListener s nextAppState rp =
     (if currentUser s \<noteq> None \<and> userRef s \<noteq> None
      then handleAppStateChange s nextAppState rp else s)"

subsection \<open>Runs of the service\<close>

text \<open>
  The events that reach the service: calls of its public methods, and callbacks of the
  collaborators, which are delivered only while the service holds the subscription or the
  pending timer they belong to.
\<close>

datatype event =
    AuthStateChanged "string option" store_reply
  | ConnectionChanged bool nat store_reply
  | ConnectionListenerError js_error
  | AppStateChanged AppStateStatus store_reply
  | RetryTimerFired store_reply
  | AwayTimerFired store_reply
  | CallSetPresenceState presence_state "custom_data option" store_reply
  | CallUpdateConfig PartialConfig
  | CallSubscribe nat
  | CallUnsubscribe nat
  | CallDestroy

fun step :: "PresenceService \<Rightarrow> event \<Rightarrow> PresenceService" where
  "step s (AuthStateChanged user rp) =
     (if authUnsubscribe s \<noteq> None then handleAuthStateChange s user rp else s)"
| "step s (ConnectionChanged connected now rp) =
     (if connectedListener s \<noteq> None then handleConnectionChange s connected now rp else s)"
| "step s (ConnectionListenerError e) =
     (if connectedListener s \<noteq> None then handleConnectionError s e else s)"
| "step s (AppStateChanged a rp) =
     (if appStateUnsubscribe s \<noteq> None then appStateListener s a rp else s)"
| "step s (RetryTimerFired rp) =
     (if retryTimeout s \<noteq> None then retryTimerCallback s rp else s)"
| "step s (AwayTimerFired rp) =
     (if awayPending s then awayTimerCallback (s\<lparr>awayPending := False\<rparr>) rp else s)"
| "step s (CallSetPresenceState st cd rp) = snd (setPresenceState s st cd rp)"
| "step s (CallUpdateConfig p) = updateConfig s p"
| "step s (CallSubscribe cb) = subscribeToConnectionStatus s cb"
| "step s (CallUnsubscribe cb) = unsubscribe s cb"
| "step s CallDestroy = snd (destroy s)"

definition run :: "PresenceService \<Rightarrow> event list \<Rightarrow> PresenceService" where
  "run s es = foldl step s es"

text \<open>A store that accepts every operation, and one that rejects the write.\<close>

definition store_ok :: store_reply where
  "store_ok = \<lparr>set_reply = None, onDisconnect_reply = None\<rparr>"

definition store_write_fails :: store_reply where
  "store_write_fails =
     \<lparr>set_reply = Some (ExternalError ''PERMISSION_DENIED''), onDisconnect_reply = None\<rparr>"

text \<open>A store that accepts the write and rejects the on-disconnect registration.\<close>

definition store_onDisconnect_fails :: store_reply where
  "store_onDisconnect_fails =
     \<lparr>set_reply = None, onDisconnect_reply = Some (ExternalError ''NETWORK_ERROR'')\<rparr>"

text \<open>A configuration with the three required handles and the defaults otherwise.\<close>

definition validConfig :: PartialConfig where
  "validConfig = emptyConfig\<lparr>p_firebaseApp := Some (Some 1), p_database := Some (Some 2),
                             p_auth := Some (Some 3)\<rparr>"

subsection \<open>Concrete sessions\<close>

text \<open>Identity \<open>A\<close> signs in on a freshly constructed service and the store accepts the writes.\<close>

definition session_A :: PresenceService where
  "session_A = run (constructed validConfig) [AuthStateChanged (Some ''A'') store_ok]"

text \<open>The same sign-in on a service configured with two allowed states only.\<close>

definition session_A_restricted :: PresenceService where
  "session_A_restricted =
     run (constructed (validConfig\<lparr>p_customStates := Some [''online'', ''offline'']\<rparr>))
       [AuthStateChanged (Some ''A'') store_ok]"

text \<open>
  A service configured with \<open>maxRetries = 1\<close>: the initial write of the sign-in fails, then
  the connectivity listener reports an error.
\<close>

definition session_retry_exceeded :: PresenceService where
  "session_retry_exceeded =
     run (constructed (validConfig\<lparr>p_maxRetries := Some 1\<rparr>))
       [AuthStateChanged (Some ''A'') store_write_fails,
        ConnectionListenerError (ExternalError ''PERMISSION_DENIED'')]"

text \<open>
  \<open>A\<close> signs in, the store connects, \<open>A\<close> becomes busy, the host shrinks the allowed states
  with \<open>updateConfig\<close>, and the connection drops.
\<close>

definition session_shrunk :: PresenceService where
  "session_shrunk =
     run (constructed validConfig)
       [AuthStateChanged (Some ''A'') store_ok,
        ConnectionChanged True 10 store_ok,
        CallSetPresenceState Busy None store_ok,
        CallUpdateConfig (emptyConfig\<lparr>p_customStates := Some [''online'', ''offline'']\<rparr>),
        ConnectionChanged False 20 store_ok]"

text \<open>Two listeners subscribe, \<open>A\<close> signs in, \<open>A\<close> becomes busy and the store connects.\<close>

definition session_observed :: PresenceService where
  "session_observed =
     run (constructed validConfig)
       [CallSubscribe 7, CallSubscribe 8,
        AuthStateChanged (Some ''A'') store_ok,
        CallSetPresenceState Busy None store_ok,
        ConnectionChanged True 10 store_ok,
        ConnectionChanged False 20 store_ok]"

text \<open>The observed session once the store has connected again.\<close>

definition session_connected :: PresenceService where
  "session_connected = step session_observed (ConnectionChanged True 30 store_ok)"

text \<open>
  The connected session after the host has taken the database handle out of the
  configuration with \<open>updateConfig\<close>.
\<close>

definition session_no_database :: PresenceService where
  "session_no_database =
     step session_connected (CallUpdateConfig (emptyConfig\<lparr>p_database := Some None\<rparr>))"

text \<open>
  A service constructed without the required handles, so that its initialisation failed and
  it holds no subscription, with one connection-status listener.
\<close>

definition session_uninitialised :: PresenceService where
  "session_uninitialised = run (constructed emptyConfig) [CallSubscribe 7]"

text \<open>The sign-in of \<open>A\<close> on a service configured without the automatic away transition.\<close>

definition session_A_manual :: PresenceService where
  "session_A_manual =
     run (constructed (validConfig\<lparr>p_autoSetAway := Some False\<rparr>))
       [AuthStateChanged (Some ''A'') store_ok]"

text \<open>The status every teardown shows to the listeners.\<close>

definition resetStatus :: "ConnectionStatus \<Rightarrow> ConnectionStatus" where
  "resetStatus c = c\<lparr>isConnected := False, retryCount := 0\<rparr>"

text \<open>The number of on-disconnect writes registered in a log of store operations.\<close>

fun isOnDisconnectSet :: "store_op \<Rightarrow> bool" where
  "isOnDisconnectSet (OnDisconnectSet r d) = True"
| "isOnDisconnectSet _ = False"

definition onDisconnectRegistrations :: "store_op list \<Rightarrow> nat" where
  "onDisconnectRegistrations ops = length (filter isOnDisconnectSet ops)"

section \<open>Properties\<close>

lemmas model_defs =
  run_def constructed_def initialize_def initialize'_def initialFields_def validateConfig_def
  mergeConfig_def defaultConfig_def validConfig_def emptyConfig_def handleAuthStateChange_def
  setupPresence_def cleanup_def notifyConnectionListeners_def setPresenceState_def store_ok_def
  store_write_fails_def setupAwayTimer_def handleSetupError_def incrementRetryCount_def
  scheduleRetry_def handleConnectionError_def handleConnectionChange_def
  updateConfig_def awayTimerCallback_def subscribeToConnectionStatus_def unsubscribe_def

subsection \<open>The retry delay on doubles\<close>

lemma double_bound_numeral: "(32000::int) < double_bound"
  by (simp add: double_bound_def)

lemma pow_below_bound: "n < 1024 \<Longrightarrow> (2::int) ^ n < double_bound"
  unfolding double_bound_def by (rule power_strict_increasing) simp_all

lemma pow_above_bound: "1024 \<le> n \<Longrightarrow> double_bound \<le> (2::int) ^ n"
  unfolding double_bound_def by (rule power_increasing) simp_all

lemma Math_pow2_finite:
  assumes "n < 1024"
  shows "Math_pow2 n = Finite (2 ^ n)"
proof -
  have "(0::int) < 2 ^ n" by simp
  with double_bound_numeral have "\<not> (2::int) ^ n \<le> - double_bound" by linarith
  with pow_below_bound [OF assms] show ?thesis
    by (simp add: Math_pow2_def toDouble_def)
qed

lemma Math_pow2_infinite: "1024 \<le> n \<Longrightarrow> Math_pow2 n = PosInfinity"
  using pow_above_bound [of n] by (simp add: Math_pow2_def toDouble_def)

text \<open>
  A positive base delay: the product is exact, or it overflows to \<open>Infinity\<close> and the
  minimum is the ceiling, which is also the minimum of the exact product.
\<close>

lemma createRetryDelay_positive:
  assumes "0 < b"
  shows "createRetryDelay n (Some b) = Finite (min (b * 2 ^ n) 30000)"
proof (cases "n < 1024")
  case True
  have p: "0 < b * 2 ^ n" using assms by simp
  show ?thesis
  proof (cases "double_bound \<le> b * 2 ^ n")
    case True
    with \<open>n < 1024\<close> double_bound_numeral show ?thesis
      by (simp add: createRetryDelay_def Math_pow2_finite toDouble_def)
  next
    case False
    with \<open>n < 1024\<close> p double_bound_numeral show ?thesis
      by (simp add: createRetryDelay_def Math_pow2_finite toDouble_def)
  qed
next
  case False
  then have n: "1024 \<le> n" by simp
  have "double_bound \<le> 2 ^ n" using n by (rule pow_above_bound)
  also have "(2::int) ^ n \<le> b * 2 ^ n" using assms by simp
  finally have "30000 < b * 2 ^ n" using double_bound_numeral by simp
  with n assms show ?thesis
    by (simp add: createRetryDelay_def Math_pow2_infinite)
qed

lemma createRetryDelay_in_range:
  assumes "n < 1024" and "- double_bound < b * 2 ^ n"
  shows "createRetryDelay n (Some b) = Finite (min (b * 2 ^ n) 30000)"
proof (cases "double_bound \<le> b * 2 ^ n")
  case True
  with assms double_bound_numeral show ?thesis
    by (simp add: createRetryDelay_def Math_pow2_finite toDouble_def)
next
  case False
  with assms double_bound_numeral show ?thesis
    by (simp add: createRetryDelay_def Math_pow2_finite toDouble_def)
qed

lemma createRetryDelay_zero_overflow:
  "1024 \<le> n \<Longrightarrow> createRetryDelay n (Some 0) = NaN"
  by (simp add: createRetryDelay_def Math_pow2_infinite)

lemma createRetryDelay_negative_overflow:
  assumes "b < 0" and "1024 \<le> n \<or> b * 2 ^ n \<le> - double_bound"
  shows "createRetryDelay n (Some b) = NegInfinity"
proof (cases "n < 1024")
  case True
  with assms have "b * 2 ^ n \<le> - double_bound" by simp
  moreover have "\<not> double_bound \<le> b * 2 ^ n"
    using calculation double_bound_numeral by simp
  ultimately show ?thesis using True
    by (simp add: createRetryDelay_def Math_pow2_finite toDouble_def)
next
  case False
  with assms show ?thesis
    by (simp add: createRetryDelay_def Math_pow2_infinite)
qed

subsection \<open>The concrete sessions, field by field\<close>

lemma session_A_fields:
  "userRef session_A = Some ''presence/A''"
  "currentUser session_A = Some ''A''"
  "customStates (config session_A) = [''online'', ''offline'', ''away'', ''busy'']"
  "currentPresenceState session_A = Online"
  "retryTimeout session_A = None"
  "retryCount (connectionStatus session_A) = 0"
  "maxRetries (config session_A) = 5"
  "retryInterval (config session_A) = 1000"
  "store_log session_A =
     [OnValue ''.info/connected'',
      Set ''presence/A'' \<lparr>state = Online, uid = Some ''A'', customData = None\<rparr>,
      OnDisconnectSet ''presence/A'' \<lparr>state = Offline, uid = Some ''A'', customData = None\<rparr>]"
  by (simp_all add: session_A_def model_defs)

lemma session_A_restricted_fields:
  "userRef session_A_restricted = Some ''presence/A''"
  "currentUser session_A_restricted = Some ''A''"
  "customStates (config session_A_restricted) = [''online'', ''offline'']"
  "currentPresenceState session_A_restricted = Online"
  "awayPending session_A_restricted"
  "autoSetAway (config session_A_restricted)"
  "store_log session_A_restricted = store_log session_A"
  by (simp_all add: session_A_restricted_def session_A_def model_defs)

lemma session_A_manual_fields:
  "autoSetAway (config session_A_manual) = False"
  "awayTimeout session_A_manual = None"
  "awayPending session_A_manual = False"
  "currentPresenceState session_A_manual = Online"
  by (simp_all add: session_A_manual_def model_defs)

lemma session_retry_exceeded_fields:
  "connectedListener session_retry_exceeded = Some ''.info/connected''"
  "maxRetries (config session_retry_exceeded) = 1"
  "retryCount (connectionStatus session_retry_exceeded) = 2"
  "retryTimeout session_retry_exceeded = None"
  by (simp_all add: session_retry_exceeded_def model_defs createRetryDelay_positive)

lemma session_shrunk_fields:
  "userRef session_shrunk = Some ''presence/A''"
  "currentUser session_shrunk = Some ''A''"
  "connectedListener session_shrunk = Some ''.info/connected''"
  "isConnected (connectionStatus session_shrunk) = False"
  "currentPresenceState session_shrunk = Busy"
  "customStates (config session_shrunk) = [''online'', ''offline'']"
  by (simp_all add: session_shrunk_def model_defs createRetryDelay_positive)

lemma session_observed_fields:
  "userRef session_observed = Some ''presence/A''"
  "currentUser session_observed = Some ''A''"
  "listeners session_observed = [7, 8]"
  "connectionStatus session_observed =
     \<lparr>isConnected = False, lastConnected = Some 10, retryCount = 0\<rparr>"
  "currentPresenceState session_observed = Busy"
  "customStates (config session_observed) = [''online'', ''offline'', ''away'', ''busy'']"
  "connectedListener session_observed = Some ''.info/connected''"
  "appStateUnsubscribe session_observed = Some 0"
  "currentSetupUid session_observed = Some ''A''"
  "setupInProgress session_observed = False"
  "database (config session_observed) = Some 2"
  by (simp_all add: session_observed_def model_defs createRetryDelay_positive)

lemma session_connected_fields:
  "userRef session_connected = Some ''presence/A''"
  "currentUser session_connected = Some ''A''"
  "currentSetupUid session_connected = Some ''A''"
  "setupInProgress session_connected = False"
  "database (config session_connected) = Some 2"
  "appStateUnsubscribe session_connected = Some 0"
  "currentPresenceState session_connected = Busy"
  "customStates (config session_connected) = [''online'', ''offline'', ''away'', ''busy'']"
  "listeners session_connected = [7, 8]"
  "connectionStatus session_connected =
     \<lparr>isConnected = True, lastConnected = Some 30, retryCount = 0\<rparr>"
  "store_log session_connected =
     store_log session_observed @
       [Set ''presence/A'' \<lparr>state = Busy, uid = Some ''A'', customData = None\<rparr>]"
  by (simp_all add: session_connected_def session_observed_fields handleConnectionChange_def
      setPresenceState_def notifyConnectionListeners_def store_ok_def Let_def)

lemma session_no_database_fields:
  "userRef session_no_database = Some ''presence/A''"
  "currentUser session_no_database = Some ''A''"
  "currentSetupUid session_no_database = Some ''A''"
  "setupInProgress session_no_database = False"
  "database (config session_no_database) = None"
  "maxRetries (config session_no_database) = 5"
  "retryInterval (config session_no_database) = 1000"
  "authUnsubscribe session_no_database = Some 0"
  "listeners session_no_database = [7, 8]"
  "retryTimeout session_no_database = Some (Finite 1000)"
  "connectionStatus session_no_database =
     \<lparr>isConnected = True, lastConnected = Some 30, retryCount = 0\<rparr>"
  by (simp_all add: session_no_database_def session_connected_def session_observed_def
      model_defs createRetryDelay_positive)

lemma session_uninitialised_fields:
  "authUnsubscribe session_uninitialised = None"
  "appStateUnsubscribe session_uninitialised = None"
  "listeners session_uninitialised = [7]"
  "connectionStatus session_uninitialised =
     \<lparr>isConnected = False, lastConnected = None, retryCount = 0\<rparr>"
  "notifications session_uninitialised =
     [(7, \<lparr>isConnected = False, lastConnected = None, retryCount = 0\<rparr>)]"
  by (simp_all add: session_uninitialised_def model_defs)

subsection \<open>What teardown and the writer leave untouched\<close>

lemma cleanup_connectionStatus:
  "connectionStatus (cleanup s) = resetStatus (connectionStatus s)"
  by (simp add: cleanup_def notifyConnectionListeners_def resetStatus_def Let_def
      split: option.splits)

lemma cleanup_notifications:
  "notifications (cleanup s) =
     notifications s @ map (\<lambda>cb. (cb, resetStatus (connectionStatus s))) (listeners s)"
  by (simp add: cleanup_def notifyConnectionListeners_def resetStatus_def Let_def
      split: option.splits)

lemma setPresenceState_notifications:
  "notifications (snd (setPresenceState s st cd rp)) = notifications s"
  by (simp add: setPresenceState_def Let_def split: option.splits)

lemma handleSetupError_notifications: "notifications (handleSetupError s e) = notifications s"
  by (simp add: handleSetupError_def incrementRetryCount_def scheduleRetry_def Let_def)

lemma setupAwayTimer_notifications: "notifications (setupAwayTimer s) = notifications s"
  by (simp add: setupAwayTimer_def)

text \<open>
  A binding attempt that passes its two guards notifies the listeners once, from the
  \<open>cleanup\<close> it starts with, whatever the store answers to the initial write.
\<close>

lemma setupPresence_notifications:
  assumes "\<not> setupInProgress s" and "database (config s) \<noteq> None"
  shows "notifications (setupPresence s u rp) =
           notifications s @ map (\<lambda>cb. (cb, resetStatus (connectionStatus s))) (listeners s)"
proof -
  let ?s1 = "s\<lparr>setupInProgress := True\<rparr>"
  let ?s4 = "(cleanup ?s1)\<lparr>userRef := Some (databasePath (config (cleanup ?s1)) @ ''/'' @ u),
      connectedRef := Some ''.info/connected'', connectedListener := Some ''.info/connected'',
      store_log := store_log (cleanup ?s1) @ [OnValue ''.info/connected'']\<rparr>"
  have n4: "notifications ?s4 =
      notifications s @ map (\<lambda>cb. (cb, resetStatus (connectionStatus s))) (listeners s)"
    by (simp add: cleanup_notifications)
  obtain res s5 where w: "setPresenceState ?s4 Online None rp = (res, s5)"
    by (cases "setPresenceState ?s4 Online None rp")
  have n5: "notifications s5 = notifications ?s4"
    using setPresenceState_notifications [of ?s4 Online None rp] w by simp
  obtain d where d: "database (config s) = Some d"
    using assms(2) by auto
  show ?thesis
    using assms(1) d w n4 n5
    by (cases res)
       (simp_all add: setupPresence_def Let_def handleSetupError_notifications
          setupAwayTimer_notifications)
qed

subsection \<open>Construction\<close>

text \<open>
  C1. The claim: constructing the service with a configuration that lacks a required handle
  throws a configuration error from the constructor itself. The code does not: the
  constructor calls the \<open>async\<close> method \<open>initialize\<close> and drops its promise, so for no
  configuration does the constructor throw. At the empty configuration, which the test
  \<open>should throw error with invalid config\<close> expects to throw, the constructor returns an
  object whose memoised promise is rejected with \<open>MISSING_FIREBASE_APP\<close>, which is not
  initialised and which holds no subscription to the identity provider.
\<close>

theorem constructor_returns_normally:
  "PresenceService_constructor p \<noteq> Inl e
   \<and> PresenceService_constructor emptyConfig = Inr (constructed emptyConfig)
   \<and> initPromise (constructed emptyConfig) =
       Some (Rejected (PresenceError ''Firebase app is required'' ''MISSING_FIREBASE_APP'' None))
   \<and> \<not> initialized (constructed emptyConfig)
   \<and> authUnsubscribe (constructed emptyConfig) = None"
  by (simp add: PresenceService_constructor_def model_defs split: prod.splits)

subsection \<open>Retry delay\<close>

text \<open>
  C3, as the claim states it, fails: with a base delay of 0 and attempt number 1024,
  \<open>Math.pow(2, 1024)\<close> is \<open>Infinity\<close>, the product \<open>0 * Infinity\<close> is \<open>NaN\<close>, and so is the
  delay, where the claim gives \<open>min (0 * 2 ^ 1024) 30000 = 0\<close>; with a base delay of \<open>-1\<close>
  the delay is \<open>-Infinity\<close>.
\<close>

theorem createRetryDelay_zero_base_is_NaN:
  "createRetryDelay 1024 (Some 0) = NaN
   \<and> createRetryDelay 1024 (Some 0) \<noteq> Finite (min (0 * 2 ^ 1024) 30000)
   \<and> createRetryDelay 1024 (Some (- 1)) = NegInfinity"
  by (simp add: createRetryDelay_zero_overflow createRetryDelay_negative_overflow)

text \<open>
  C3, amended. For every attempt number \<open>n\<close> and every positive base delay \<open>b\<close> the retry
  delay is \<open>min (b * 2 ^ n) 30000\<close>, also where \<open>b * 2 ^ n\<close> leaves the range of the doubles
  (the product is then \<open>Infinity\<close> and the delay 30000). For a base delay that is zero or
  negative the same holds while \<open>2 ^ n\<close> and the product stay in that range (\<open>n < 1024\<close> and
  \<open>- 2 ^ 1024 < b * 2 ^ n\<close>); beyond it the delay is \<open>NaN\<close> for \<open>b = 0\<close> and \<open>-Infinity\<close>
  for \<open>b < 0\<close>. With \<open>b = 1000\<close> the delays of attempts 0 to 4 are 1000, 2000, 4000, 8000,
  16000 and attempt 5, whose raw value is 32000, gets 30000. The timer that
  \<open>scheduleRetry\<close> starts carries this delay for the current retry count and a positive
  configured retry interval.
\<close>

theorem createRetryDelay_min:
  "(0 < b \<or> (n < 1024 \<and> - (2 ^ 1024) < b * 2 ^ n) \<longrightarrow>
      createRetryDelay n (Some b) = Finite (min (b * 2 ^ n) 30000))
   \<and> (b = 0 \<and> 1024 \<le> n \<longrightarrow> createRetryDelay n (Some b) = NaN)
   \<and> (b < 0 \<and> (1024 \<le> n \<or> b * 2 ^ n \<le> - (2 ^ 1024)) \<longrightarrow>
        createRetryDelay n (Some b) = NegInfinity)
   \<and> map (\<lambda>k. createRetryDelay k (Some 1000)) [0, 1, 2, 3, 4] =
       [Finite 1000, Finite 2000, Finite 4000, Finite 8000, Finite 16000]
   \<and> (1000::int) * 2 ^ 5 = 32000
   \<and> createRetryDelay 5 (Some 1000) = Finite 30000
   \<and> (retryTimeout s = None \<and> int (retryCount (connectionStatus s)) < maxRetries (config s)
        \<and> 0 < retryInterval (config s)
        \<longrightarrow> retryTimeout (scheduleRetry s) =
             Some (Finite (min (retryInterval (config s) * 2 ^ retryCount (connectionStatus s))
                     30000)))"
proof -
  have a: "0 < b \<or> (n < 1024 \<and> - (2 ^ 1024) < b * 2 ^ n) \<Longrightarrow>
      createRetryDelay n (Some b) = Finite (min (b * 2 ^ n) 30000)"
    using createRetryDelay_positive [of b n] createRetryDelay_in_range [of n b]
    by (auto simp add: double_bound_def)
  have z: "b = 0 \<and> 1024 \<le> n \<Longrightarrow> createRetryDelay n (Some b) = NaN"
    by (simp add: createRetryDelay_zero_overflow)
  have m: "b < 0 \<and> (1024 \<le> n \<or> b * 2 ^ n \<le> - (2 ^ 1024)) \<Longrightarrow>
      createRetryDelay n (Some b) = NegInfinity"
    using createRetryDelay_negative_overflow [of b n] by (simp add: double_bound_def)
  have v: "map (\<lambda>k. createRetryDelay k (Some 1000)) [0, 1, 2, 3, 4] =
       [Finite 1000, Finite 2000, Finite 4000, Finite 8000, Finite 16000]"
    "createRetryDelay 5 (Some 1000) = Finite 30000"
    by (simp_all add: createRetryDelay_positive)
  have t: "retryTimeout s = None \<and> int (retryCount (connectionStatus s)) < maxRetries (config s)
        \<and> 0 < retryInterval (config s)
        \<Longrightarrow> retryTimeout (scheduleRetry s) =
             Some (Finite (min (retryInterval (config s) * 2 ^ retryCount (connectionStatus s))
                     30000))"
    by (simp add: scheduleRetry_def createRetryDelay_positive)
  have e: "(1000::int) * 2 ^ 5 = 32000" by simp
  from a z m v t e show ?thesis by blast
qed

theorem createRetryDelay_min_witness:
  "(0::int) < 1000
   \<and> createRetryDelay 3 (Some 1000) = Finite 8000
   \<and> createRetryDelay 2000 (Some 1000) = Finite 30000
   \<and> (0::nat) < 1024 \<and> - (2 ^ 1024) < (- 5) * (2::int) ^ 0
   \<and> createRetryDelay 0 (Some (- 5)) = Finite (- 5)
   \<and> (1024::nat) \<le> 1024
   \<and> createRetryDelay 1024 (Some 0) = NaN
   \<and> (- 1::int) < 0
   \<and> createRetryDelay 1024 (Some (- 1)) = NegInfinity
   \<and> retryTimeout session_A = None
   \<and> int (retryCount (connectionStatus session_A)) < maxRetries (config session_A)
   \<and> 0 < retryInterval (config session_A)
   \<and> retryTimeout (scheduleRetry session_A) = Some (Finite 1000)"
proof -
  have big: "min ((1000::int) * 2 ^ 2000) 30000 = 30000"
  proof -
    have "(2::int) ^ 15 \<le> 2 ^ 2000" by (rule power_increasing) simp_all
    then show ?thesis by simp
  qed
  have neg: "- (2 ^ 1024) < (- 5) * (2::int) ^ 0"
    using double_bound_numeral by (simp add: double_bound_def)
  from createRetryDelay_min [of 1000 3 session_A]
       createRetryDelay_min [of 1000 2000 session_A]
       createRetryDelay_min [of "- 5" 0 session_A]
       createRetryDelay_min [of 0 1024 session_A]
       createRetryDelay_min [of "- 1" 1024 session_A] big neg
  show ?thesis by (simp add: session_A_fields)
qed

subsection \<open>The presence writer\<close>

text \<open>
  C4. In a bound session (a store reference and a current identity exist), for every
  allowed state \<open>st\<close>: if the store rejects the write with \<open>cause\<close>, the promise of
  \<open>setPresenceState\<close> is rejected with the \<open>SET_STATE_FAILED\<close> error wrapping \<open>cause\<close>, and
  the current presence state of the service is \<open>st\<close> afterwards.
\<close>

theorem setPresenceState_write_fails:
  assumes "userRef s = Some r" and "currentUser s = Some u"
    and "state_name st \<in> set (customStates (config s))"
    and "set_reply rp = Some cause"
  shows "fst (setPresenceState s st cd rp) =
           Inl (PresenceError ''Failed to set presence state'' ''SET_STATE_FAILED'' (Some cause))
         \<and> currentPresenceState (snd (setPresenceState s st cd rp)) = st"
  using assms by (simp add: setPresenceState_def)

theorem setPresenceState_write_fails_witness:
  "userRef session_A = Some ''presence/A'' \<and> currentUser session_A = Some ''A''
   \<and> state_name Busy \<in> set (customStates (config session_A))
   \<and> set_reply store_write_fails = Some (ExternalError ''PERMISSION_DENIED'')
   \<and> currentPresenceState session_A = Online
   \<and> fst (setPresenceState session_A Busy None store_write_fails) =
       Inl (PresenceError ''Failed to set presence state'' ''SET_STATE_FAILED''
              (Some (ExternalError ''PERMISSION_DENIED'')))
   \<and> currentPresenceState (snd (setPresenceState session_A Busy None store_write_fails)) = Busy"
proof -
  have r: "userRef session_A = Some ''presence/A''" and u: "currentUser session_A = Some ''A''"
    and a: "state_name Busy \<in> set (customStates (config session_A))"
    and f: "set_reply store_write_fails = Some (ExternalError ''PERMISSION_DENIED'')"
    by (simp_all add: session_A_fields store_write_fails_def)
  from setPresenceState_write_fails [OF r u a f, of None] r u a f show ?thesis
    by (simp add: session_A_fields)
qed

text \<open>
  C9. The checks for a binding and for an identity come before the validation of the
  state: for every state \<open>st\<close>, allowed or not, \<open>setPresenceState\<close> without a store
  reference or without a current identity fulfils its promise and leaves the service as it
  was; a rejection with \<open>INVALID_STATE\<close> happens only when both are present.
\<close>

theorem setPresenceState_unbound_noop:
  "(userRef s = None \<or> currentUser s = None \<longrightarrow> setPresenceState s st cd rp = (Inr (), s))
   \<and> (fst (setPresenceState s st cd rp) = Inl (PresenceError m ''INVALID_STATE'' e)
        \<longrightarrow> userRef s \<noteq> None \<and> currentUser s \<noteq> None)"
  by (auto simp add: setPresenceState_def Let_def split: option.splits if_splits)

theorem setPresenceState_unbound_noop_witness:
  "(userRef (constructed (validConfig\<lparr>p_customStates := Some [''online'', ''offline'']\<rparr>)) = None
      \<or> currentUser (constructed (validConfig\<lparr>p_customStates := Some [''online'', ''offline'']\<rparr>))
          = None)
   \<and> state_name Busy \<notin> set (customStates (config
         (constructed (validConfig\<lparr>p_customStates := Some [''online'', ''offline'']\<rparr>))))
   \<and> setPresenceState
         (constructed (validConfig\<lparr>p_customStates := Some [''online'', ''offline'']\<rparr>))
         Busy None store_ok
       = (Inr (), constructed (validConfig\<lparr>p_customStates := Some [''online'', ''offline'']\<rparr>))
   \<and> fst (setPresenceState session_A_restricted Busy None store_ok) =
         Inl (PresenceError ''Invalid presence state: busy'' ''INVALID_STATE'' None)
   \<and> userRef session_A_restricted \<noteq> None \<and> currentUser session_A_restricted \<noteq> None"
proof -
  let ?c = "constructed (validConfig\<lparr>p_customStates := Some [''online'', ''offline'']\<rparr>)"
  have u: "userRef ?c = None \<or> currentUser ?c = None"
    and n: "state_name Busy \<notin> set (customStates (config ?c))"
    by (simp_all add: model_defs)
  have i: "fst (setPresenceState session_A_restricted Busy None store_ok) =
         Inl (PresenceError ''Invalid presence state: busy'' ''INVALID_STATE'' None)"
    by (simp add: setPresenceState_def session_A_restricted_fields)
  from setPresenceState_unbound_noop [of "?c" Busy None store_ok]
       setPresenceState_unbound_noop [of session_A_restricted Busy None store_ok
          "''Invalid presence state: busy''" None]
       u n i
  show ?thesis by simp
qed

text \<open>
  C5. In a bound session, a call of \<open>setPresenceState\<close> whose promise is fulfilled issues
  the write of the record of the requested state and, when that state is \<open>online\<close>, exactly
  one on-disconnect write, of the \<open>offline\<close> record; for every other state it issues the
  write alone, so the number of on-disconnect registrations grows by one for \<open>online\<close> and
  by none otherwise.
\<close>

theorem setPresenceState_onDisconnect_registration:
  assumes "userRef s = Some r" and "currentUser s = Some u"
    and "fst (setPresenceState s st cd rp) = Inr ()"
  shows "store_log (snd (setPresenceState s st cd rp)) =
           store_log s @ Set r \<lparr>state = st, uid = Some u, customData = cd\<rparr> #
             (if st = Online
              then [OnDisconnectSet r \<lparr>state = Offline, uid = Some u, customData = cd\<rparr>]
              else [])
         \<and> onDisconnectRegistrations (store_log (snd (setPresenceState s st cd rp))) =
             onDisconnectRegistrations (store_log s) + (if st = Online then 1 else 0)"
  using assms
  by (auto simp add: setPresenceState_def Let_def onDisconnectRegistrations_def
      split: option.splits if_splits)

theorem setPresenceState_onDisconnect_registration_witness:
  "userRef session_A = Some ''presence/A'' \<and> currentUser session_A = Some ''A''
   \<and> fst (setPresenceState session_A Online None store_ok) = Inr ()
   \<and> fst (setPresenceState session_A Busy None store_ok) = Inr ()
   \<and> store_log (snd (setPresenceState session_A Online None store_ok)) =
       store_log session_A @
         [Set ''presence/A'' \<lparr>state = Online, uid = Some ''A'', customData = None\<rparr>,
          OnDisconnectSet ''presence/A'' \<lparr>state = Offline, uid = Some ''A'', customData = None\<rparr>]
   \<and> store_log (snd (setPresenceState session_A Busy None store_ok)) =
       store_log session_A @
         [Set ''presence/A'' \<lparr>state = Busy, uid = Some ''A'', customData = None\<rparr>]
   \<and> onDisconnectRegistrations (store_log (snd (setPresenceState session_A Online None store_ok)))
       = onDisconnectRegistrations (store_log session_A) + 1
   \<and> onDisconnectRegistrations (store_log (snd (setPresenceState session_A Busy None store_ok)))
       = onDisconnectRegistrations (store_log session_A)"
proof -
  have r: "userRef session_A = Some ''presence/A''" and u: "currentUser session_A = Some ''A''"
    by (simp_all add: session_A_fields)
  have o: "fst (setPresenceState session_A Online None store_ok) = Inr ()"
    and b: "fst (setPresenceState session_A Busy None store_ok) = Inr ()"
    by (simp_all add: setPresenceState_def session_A_fields store_ok_def)
  from setPresenceState_onDisconnect_registration [OF r u o]
       setPresenceState_onDisconnect_registration [OF r u b] r u o b
  show ?thesis by (simp add: onDisconnectRegistrations_def)
qed

text \<open>
  C6, as the claim states it, fails: in the bound session of \<open>A\<close> the state \<open>busy\<close> is in
  the allowed set, and when the store rejects the write \<open>setPresenceState\<close> does not
  succeed.
\<close>

theorem setPresenceState_allowed_can_fail:
  "userRef session_A = Some ''presence/A'' \<and> currentUser session_A = Some ''A''
   \<and> state_name Busy \<in> set (customStates (config session_A))
   \<and> fst (setPresenceState session_A Busy None store_write_fails) \<noteq> Inr ()"
  by (simp add: setPresenceState_def session_A_fields store_write_fails_def)

text \<open>
  C6, amended. In a bound session, \<open>setPresenceState\<close> with a state of the allowed set is
  never rejected as invalid: it succeeds exactly when the store accepts the write and, for
  \<open>online\<close>, the on-disconnect registration, and otherwise it is rejected with the
  \<open>SET_STATE_FAILED\<close> error that wraps the cause given by the store, for a rejected write
  and for a rejected on-disconnect registration alike. With a state outside the allowed
  set it is rejected with \<open>INVALID_STATE\<close> and leaves the whole service, its current state
  included, as it was.
\<close>

theorem setPresenceState_validation:
  assumes "userRef s = Some r" and "currentUser s = Some u"
  shows "(state_name st \<in> set (customStates (config s)) \<longrightarrow>
            (fst (setPresenceState s st cd rp) = Inr ()
               \<longleftrightarrow> set_reply rp = None \<and> (st = Online \<longrightarrow> onDisconnect_reply rp = None))
            \<and> (set_reply rp = Some c \<longrightarrow>
                 fst (setPresenceState s st cd rp) =
                   Inl (PresenceError ''Failed to set presence state'' ''SET_STATE_FAILED''
                          (Some c)))
            \<and> (set_reply rp = None \<and> st = Online \<and> onDisconnect_reply rp = Some c \<longrightarrow>
                 fst (setPresenceState s st cd rp) =
                   Inl (PresenceError ''Failed to set presence state'' ''SET_STATE_FAILED''
                          (Some c)))
            \<and> fst (setPresenceState s st cd rp) \<noteq> Inl (PresenceError m ''INVALID_STATE'' e))
         \<and> (state_name st \<notin> set (customStates (config s)) \<longrightarrow>
              setPresenceState s st cd rp =
                (Inl (PresenceError (''Invalid presence state: '' @ state_name st)
                        ''INVALID_STATE'' None), s))"
  using assms
  by (auto simp add: setPresenceState_def Let_def split: option.splits if_splits)

theorem setPresenceState_validation_witness:
  "userRef session_A = Some ''presence/A'' \<and> currentUser session_A = Some ''A''
   \<and> state_name Away \<in> set (customStates (config session_A))
   \<and> state_name Online \<in> set (customStates (config session_A))
   \<and> fst (setPresenceState session_A Away None store_ok) = Inr ()
   \<and> set_reply store_write_fails = Some (ExternalError ''PERMISSION_DENIED'')
   \<and> fst (setPresenceState session_A Away None store_write_fails) =
       Inl (PresenceError ''Failed to set presence state'' ''SET_STATE_FAILED''
              (Some (ExternalError ''PERMISSION_DENIED'')))
   \<and> set_reply store_onDisconnect_fails = None
   \<and> onDisconnect_reply store_onDisconnect_fails = Some (ExternalError ''NETWORK_ERROR'')
   \<and> fst (setPresenceState session_A Online None store_onDisconnect_fails) =
       Inl (PresenceError ''Failed to set presence state'' ''SET_STATE_FAILED''
              (Some (ExternalError ''NETWORK_ERROR'')))
   \<and> userRef session_A_restricted = Some ''presence/A''
   \<and> currentUser session_A_restricted = Some ''A''
   \<and> state_name Away \<notin> set (customStates (config session_A_restricted))
   \<and> setPresenceState session_A_restricted Away None store_ok =
       (Inl (PresenceError ''Invalid presence state: away'' ''INVALID_STATE'' None),
        session_A_restricted)"
proof -
  have r: "userRef session_A = Some ''presence/A''" and u: "currentUser session_A = Some ''A''"
    and r': "userRef session_A_restricted = Some ''presence/A''"
    and u': "currentUser session_A_restricted = Some ''A''"
    by (simp_all add: session_A_fields session_A_restricted_fields)
  have a: "state_name Away \<in> set (customStates (config session_A))"
    "state_name Online \<in> set (customStates (config session_A))"
    and a': "state_name Away \<notin> set (customStates (config session_A_restricted))"
    by (simp_all add: session_A_fields session_A_restricted_fields)
  have f: "set_reply store_write_fails = Some (ExternalError ''PERMISSION_DENIED'')"
    "set_reply store_onDisconnect_fails = None"
    "onDisconnect_reply store_onDisconnect_fails = Some (ExternalError ''NETWORK_ERROR'')"
    "set_reply store_ok = None" "onDisconnect_reply store_ok = None"
    by (simp_all add: store_write_fails_def store_onDisconnect_fails_def store_ok_def)
  from setPresenceState_validation [OF r u, of Away None store_ok]
       setPresenceState_validation
         [OF r u, of Away None store_write_fails "ExternalError ''PERMISSION_DENIED''"]
       setPresenceState_validation
         [OF r u, of Online None store_onDisconnect_fails "ExternalError ''NETWORK_ERROR''"]
       setPresenceState_validation [OF r' u', of Away None store_ok] r u r' u' a a' f
  show ?thesis by simp
qed

subsection \<open>The retry scheduler\<close>

text \<open>
  C2, as the claim states it, fails: with \<open>maxRetries = 1\<close>, a sign-in whose initial write
  the store rejects followed by an error of the connectivity listener leaves the service
  with a retry count of 2.
\<close>

theorem retryCount_exceeds_maxRetries:
  "maxRetries (config session_retry_exceeded) = 1
   \<and> retryCount (connectionStatus session_retry_exceeded) = 2
   \<and> \<not> int (retryCount (connectionStatus session_retry_exceeded))
         \<le> maxRetries (config session_retry_exceeded)"
  by (simp add: session_retry_exceeded_fields)

text \<open>
  C2, amended. The retry count is not capped: an error of the connectivity listener and a
  failed setup each add one to it, also at or above \<open>maxRetries\<close>. But once the retry count
  has reached \<open>maxRetries\<close> the schedule path starts no timer: \<open>scheduleRetry\<close> leaves the
  service unchanged, and the three handlers that enter it (listener error, setup error,
  loss of connectivity) leave the retry-timer handle as it was, so a handle that was unset
  stays unset.
\<close>

theorem scheduleRetry_stops_at_ceiling:
  "(int (retryCount (connectionStatus s)) \<ge> maxRetries (config s) \<longrightarrow>
      scheduleRetry s = s
      \<and> retryTimeout (handleConnectionError s e) = retryTimeout s
      \<and> retryTimeout (handleSetupError s e) = retryTimeout s
      \<and> retryTimeout (handleConnectionChange s False now rp) = retryTimeout s)
   \<and> retryCount (connectionStatus (handleConnectionError s e)) =
       retryCount (connectionStatus s) + 1
   \<and> retryCount (connectionStatus (handleSetupError s e)) =
       retryCount (connectionStatus s) + 1"
  by (simp add: scheduleRetry_def handleConnectionError_def handleSetupError_def
      incrementRetryCount_def handleConnectionChange_def notifyConnectionListeners_def Let_def)

theorem scheduleRetry_stops_at_ceiling_witness:
  "int (retryCount (connectionStatus session_retry_exceeded))
     \<ge> maxRetries (config session_retry_exceeded)
   \<and> retryTimeout session_retry_exceeded = None
   \<and> scheduleRetry session_retry_exceeded = session_retry_exceeded
   \<and> retryTimeout (handleConnectionError session_retry_exceeded (ExternalError ''timeout'')) = None
   \<and> retryTimeout (handleSetupError session_retry_exceeded (ExternalError ''timeout'')) = None
   \<and> retryTimeout (handleConnectionChange session_retry_exceeded False 5 store_ok) = None
   \<and> retryCount (connectionStatus
         (handleConnectionError session_retry_exceeded (ExternalError ''timeout''))) = 3"
proof -
  have h: "int (retryCount (connectionStatus session_retry_exceeded))
             \<ge> maxRetries (config session_retry_exceeded)"
    by (simp add: session_retry_exceeded_fields)
  from scheduleRetry_stops_at_ceiling
         [of session_retry_exceeded "ExternalError ''timeout''" 5 store_ok] h
  show ?thesis
    by (simp add: session_retry_exceeded_fields)
qed

subsection \<open>Connectivity observations\<close>

text \<open>
  C7, as the claim states it, fails: once \<open>updateConfig\<close> has taken \<open>busy\<close> out of the
  allowed states while \<open>A\<close> is busy, a binding exists and the last observation was
  \<open>false\<close>, yet the observation \<open>true\<close> issues no write to the store.
\<close>

theorem reconnect_without_rewrite:
  "userRef session_shrunk = Some ''presence/A''
   \<and> currentUser session_shrunk = Some ''A''
   \<and> \<not> isConnected (connectionStatus session_shrunk)
   \<and> currentPresenceState session_shrunk = Busy
   \<and> isConnected (connectionStatus (step session_shrunk (ConnectionChanged True 30 store_ok)))
   \<and> store_log (step session_shrunk (ConnectionChanged True 30 store_ok)) =
       store_log session_shrunk"
  by (simp add: session_shrunk_fields handleConnectionChange_def setPresenceState_def
      notifyConnectionListeners_def Let_def)

text \<open>
  The two facts behind the re-assertion: what an observation of \<open>true\<close> writes when the
  recorded flag is false, and what an observation of \<open>false\<close> leaves as it was.
\<close>

lemma handleConnectionChange_reassert:
  assumes "userRef s = Some r" and "currentUser s = Some u"
    and "\<not> isConnected (connectionStatus s)"
    and "state_name (currentPresenceState s) \<in> set (customStates (config s))"
  shows "store_log (handleConnectionChange s True now rp) =
          store_log s @ Set r \<lparr>state = currentPresenceState s, uid = Some u, customData = None\<rparr> #
            (if currentPresenceState s = Online \<and> set_reply rp = None
             then [OnDisconnectSet r \<lparr>state = Offline, uid = Some u, customData = None\<rparr>]
             else [])"
  using assms
  by (cases "currentPresenceState s")
     (auto simp add: handleConnectionChange_def setPresenceState_def
        notifyConnectionListeners_def Let_def split: option.splits)

lemma handleConnectionChange_false_keeps:
  "userRef (handleConnectionChange s False t rp) = userRef s"
  "currentUser (handleConnectionChange s False t rp) = currentUser s"
  "currentPresenceState (handleConnectionChange s False t rp) = currentPresenceState s"
  "config (handleConnectionChange s False t rp) = config s"
  "store_log (handleConnectionChange s False t rp) = store_log s"
  "isConnected (connectionStatus (handleConnectionChange s False t rp)) = False"
  by (simp_all add: handleConnectionChange_def notifyConnectionListeners_def scheduleRetry_def
      Let_def)

text \<open>
  C7, amended. On every connectivity observation of \<open>true\<close> the status becomes connected,
  with \<open>lastConnected\<close> the current time and a retry count of 0. The current state is
  written to the store again exactly when the \<open>isConnected\<close> flag recorded before the
  observation is false, a binding and its identity exist and the current state is in the
  allowed set of the present configuration (the re-assertion goes through
  \<open>setPresenceState\<close> and its checks; for \<open>online\<close> the on-disconnect write follows when the
  store accepts the write); otherwise nothing is issued to the store. An observation of
  \<open>false\<close> leaves the flag false, and in a session with a binding, its identity and an
  allowed current state an observation of \<open>true\<close> that directly follows an observation
  of \<open>false\<close> writes the current state again. On every observation, \<open>true\<close> or
  \<open>false\<close>, each registered listener is called once with the status as updated by that
  observation.
\<close>

theorem handleConnectionChange_connected:
  "connectionStatus (handleConnectionChange s True now rp) =
     \<lparr>isConnected = True, lastConnected = Some now, retryCount = 0\<rparr>
   \<and> (userRef s = Some r \<and> currentUser s = Some u \<and> \<not> isConnected (connectionStatus s)
        \<and> state_name (currentPresenceState s) \<in> set (customStates (config s)) \<longrightarrow>
        store_log (handleConnectionChange s True now rp) =
          store_log s @ Set r \<lparr>state = currentPresenceState s, uid = Some u, customData = None\<rparr> #
            (if currentPresenceState s = Online \<and> set_reply rp = None
             then [OnDisconnectSet r \<lparr>state = Offline, uid = Some u, customData = None\<rparr>]
             else [])
        \<and> currentPresenceState (handleConnectionChange s True now rp) = currentPresenceState s)
   \<and> (isConnected (connectionStatus s) \<or> userRef s = None \<or> currentUser s = None
        \<or> state_name (currentPresenceState s) \<notin> set (customStates (config s)) \<longrightarrow>
        store_log (handleConnectionChange s True now rp) = store_log s)
   \<and> isConnected (connectionStatus (handleConnectionChange s c now rp)) = c
   \<and> notifications (handleConnectionChange s c now rp) =
       notifications s @
         map (\<lambda>cb. (cb, connectionStatus (handleConnectionChange s c now rp))) (listeners s)
   \<and> (userRef s = Some r \<and> currentUser s = Some u
        \<and> state_name (currentPresenceState s) \<in> set (customStates (config s)) \<longrightarrow>
        store_log (handleConnectionChange (handleConnectionChange s False t rp') True now rp) =
          store_log s @ Set r \<lparr>state = currentPresenceState s, uid = Some u, customData = None\<rparr> #
            (if currentPresenceState s = Online \<and> set_reply rp = None
             then [OnDisconnectSet r \<lparr>state = Offline, uid = Some u, customData = None\<rparr>]
             else []))"
proof -
  have main: "connectionStatus (handleConnectionChange s True now rp) =
     \<lparr>isConnected = True, lastConnected = Some now, retryCount = 0\<rparr>
   \<and> (userRef s = Some r \<and> currentUser s = Some u \<and> \<not> isConnected (connectionStatus s)
        \<and> state_name (currentPresenceState s) \<in> set (customStates (config s)) \<longrightarrow>
        store_log (handleConnectionChange s True now rp) =
          store_log s @ Set r \<lparr>state = currentPresenceState s, uid = Some u, customData = None\<rparr> #
            (if currentPresenceState s = Online \<and> set_reply rp = None
             then [OnDisconnectSet r \<lparr>state = Offline, uid = Some u, customData = None\<rparr>]
             else [])
        \<and> currentPresenceState (handleConnectionChange s True now rp) = currentPresenceState s)
   \<and> (isConnected (connectionStatus s) \<or> userRef s = None \<or> currentUser s = None
        \<or> state_name (currentPresenceState s) \<notin> set (customStates (config s)) \<longrightarrow>
        store_log (handleConnectionChange s True now rp) = store_log s)
   \<and> isConnected (connectionStatus (handleConnectionChange s c now rp)) = c
   \<and> notifications (handleConnectionChange s c now rp) =
       notifications s @
         map (\<lambda>cb. (cb, connectionStatus (handleConnectionChange s c now rp))) (listeners s)"
    by (cases "currentPresenceState s")
       (auto simp add: handleConnectionChange_def setPresenceState_def
          notifyConnectionListeners_def scheduleRetry_def Let_def
          split: option.splits if_splits)
  have seq: "userRef s = Some r \<and> currentUser s = Some u
        \<and> state_name (currentPresenceState s) \<in> set (customStates (config s)) \<Longrightarrow>
        store_log (handleConnectionChange (handleConnectionChange s False t rp') True now rp) =
          store_log s @ Set r \<lparr>state = currentPresenceState s, uid = Some u, customData = None\<rparr> #
            (if currentPresenceState s = Online \<and> set_reply rp = None
             then [OnDisconnectSet r \<lparr>state = Offline, uid = Some u, customData = None\<rparr>]
             else [])"
    using handleConnectionChange_reassert [of "handleConnectionChange s False t rp'" r u now rp]
    by (simp add: handleConnectionChange_false_keeps)
  from main seq show ?thesis by blast
qed

theorem handleConnectionChange_connected_witness:
  "userRef session_observed = Some ''presence/A'' \<and> currentUser session_observed = Some ''A''
   \<and> \<not> isConnected (connectionStatus session_observed)
   \<and> state_name (currentPresenceState session_observed)
        \<in> set (customStates (config session_observed))
   \<and> connectionStatus (handleConnectionChange session_observed True 30 store_ok) =
       \<lparr>isConnected = True, lastConnected = Some 30, retryCount = 0\<rparr>
   \<and> store_log (handleConnectionChange session_observed True 30 store_ok) =
       store_log session_observed @
         [Set ''presence/A'' \<lparr>state = Busy, uid = Some ''A'', customData = None\<rparr>]
   \<and> notifications (handleConnectionChange session_observed True 30 store_ok) =
       notifications session_observed @
         [(7, \<lparr>isConnected = True, lastConnected = Some 30, retryCount = 0\<rparr>),
          (8, \<lparr>isConnected = True, lastConnected = Some 30, retryCount = 0\<rparr>)]
   \<and> isConnected (connectionStatus session_connected)
   \<and> store_log (handleConnectionChange session_connected True 40 store_ok) =
       store_log session_connected
   \<and> userRef session_connected = Some ''presence/A''
   \<and> currentUser session_connected = Some ''A''
   \<and> state_name (currentPresenceState session_connected)
        \<in> set (customStates (config session_connected))
   \<and> store_log (handleConnectionChange
         (handleConnectionChange session_connected False 40 store_ok) True 50 store_ok) =
       store_log session_connected @
         [Set ''presence/A'' \<lparr>state = Busy, uid = Some ''A'', customData = None\<rparr>]"
proof -
  have h: "userRef session_observed = Some ''presence/A''"
    "currentUser session_observed = Some ''A''"
    "\<not> isConnected (connectionStatus session_observed)"
    "state_name (currentPresenceState session_observed)
        \<in> set (customStates (config session_observed))"
    "currentPresenceState session_observed = Busy"
    "listeners session_observed = [7, 8]"
    and k: "isConnected (connectionStatus session_connected)"
    "userRef session_connected = Some ''presence/A''"
    "currentUser session_connected = Some ''A''"
    "state_name (currentPresenceState session_connected)
        \<in> set (customStates (config session_connected))"
    "currentPresenceState session_connected = Busy"
    by (simp_all add: session_observed_fields session_connected_fields)
  from handleConnectionChange_connected
         [of session_observed 30 store_ok "''presence/A''" "''A''" True]
       handleConnectionChange_connected
         [of session_connected 40 store_ok "''presence/A''" "''A''" True]
       handleConnectionChange_connected
         [of session_connected 50 store_ok "''presence/A''" "''A''" True 40 store_ok] h k
  show ?thesis by simp
qed

subsection \<open>The idle timer\<close>

text \<open>
  C8, as the claim states it, fails: on a service configured with the allowed states
  \<open>online\<close> and \<open>offline\<close> (and the automatic away transition left at its default, on), the
  sign-in of \<open>A\<close> arms the idle timer; when it fires the current state is still \<open>online\<close>,
  and the service stays \<open>online\<close> and issues nothing to the store.
\<close>

theorem idle_timer_fires_without_away:
  "awayPending session_A_restricted
   \<and> autoSetAway (config session_A_restricted)
   \<and> userRef session_A_restricted = Some ''presence/A''
   \<and> currentPresenceState session_A_restricted = Online
   \<and> currentPresenceState (step session_A_restricted (AwayTimerFired store_ok)) = Online
   \<and> store_log (step session_A_restricted (AwayTimerFired store_ok)) =
       store_log session_A_restricted"
  by (simp add: session_A_restricted_def model_defs)

text \<open>
  C8, amended. When the idle timer fires, the service moves to \<open>away\<close> (and writes the
  \<open>away\<close> record) if the current state at that moment is \<open>online\<close> and the presence writer
  accepts \<open>away\<close>, that is, a binding and its identity exist and \<open>away\<close> is in the allowed
  set; in every other case, in particular when the state is no longer \<open>online\<close>, the firing
  changes nothing. When \<open>autoSetAway\<close> is false, arming the timer does nothing; when it is
  true, arming starts a timer of \<open>awayTimeout\<close> milliseconds.
\<close>

theorem awayTimer_guarded_transition:
  "(currentPresenceState s = Online \<and> userRef s = Some r \<and> currentUser s = Some u
      \<and> ''away'' \<in> set (customStates (config s)) \<longrightarrow>
       currentPresenceState (awayTimerCallback s rp) = Away
       \<and> store_log (awayTimerCallback s rp) =
           store_log s @ [Set r \<lparr>state = Away, uid = Some u, customData = None\<rparr>])
   \<and> (currentPresenceState s \<noteq> Online \<or> userRef s = None \<or> currentUser s = None
        \<or> ''away'' \<notin> set (customStates (config s)) \<longrightarrow> awayTimerCallback s rp = s)
   \<and> (\<not> autoSetAway (config s) \<longrightarrow> setupAwayTimer s = s)
   \<and> (autoSetAway (config s) \<longrightarrow>
        awayTimeout (setupAwayTimer s) = Some (awayTimeoutMs (config s))
        \<and> awayPending (setupAwayTimer s))"
  by (auto simp add: awayTimerCallback_def setPresenceState_def setupAwayTimer_def Let_def
      split: option.splits)

theorem awayTimer_guarded_transition_witness:
  "currentPresenceState session_A = Online \<and> userRef session_A = Some ''presence/A''
   \<and> currentUser session_A = Some ''A'' \<and> ''away'' \<in> set (customStates (config session_A))
   \<and> currentPresenceState (awayTimerCallback session_A store_ok) = Away
   \<and> store_log (awayTimerCallback session_A store_ok) =
       store_log session_A @
         [Set ''presence/A'' \<lparr>state = Away, uid = Some ''A'', customData = None\<rparr>]
   \<and> currentPresenceState session_observed \<noteq> Online
   \<and> awayTimerCallback session_observed store_ok = session_observed
   \<and> \<not> autoSetAway (config session_A_manual)
   \<and> setupAwayTimer session_A_manual = session_A_manual
   \<and> awayTimeout session_A_manual = None
   \<and> autoSetAway (config session_A_restricted)
   \<and> awayPending (setupAwayTimer session_A_restricted)"
proof -
  have a: "currentPresenceState session_A = Online" "userRef session_A = Some ''presence/A''"
    "currentUser session_A = Some ''A''" "''away'' \<in> set (customStates (config session_A))"
    and b: "currentPresenceState session_observed \<noteq> Online"
    and c: "\<not> autoSetAway (config session_A_manual)" "awayTimeout session_A_manual = None"
    and d: "autoSetAway (config session_A_restricted)"
    by (simp_all add: session_A_fields session_observed_fields session_A_manual_fields
        session_A_restricted_fields)
  from awayTimer_guarded_transition [of session_A "''presence/A''" "''A''" store_ok]
       awayTimer_guarded_transition [of session_observed "''presence/A''" "''A''" store_ok]
       awayTimer_guarded_transition [of session_A_manual "''presence/A''" "''A''" store_ok]
       awayTimer_guarded_transition [of session_A_restricted "''presence/A''" "''A''" store_ok]
       a b c d
  show ?thesis by simp
qed

subsection \<open>Teardown\<close>

text \<open>
  C10, as the claim states it, fails: once \<open>updateConfig\<close> has taken the database handle
  out of the configuration, the binding of a new identity \<open>B\<close> in the connected session
  of \<open>A\<close> stops at the first guard of \<open>setupPresence\<close>. The store reference of \<open>A\<close> is
  dropped without \<open>cleanup\<close>: no listener is called, and the status stays connected with
  a retry count of 1.
\<close>

theorem rebinding_without_cleanup:
  "userRef session_no_database = Some ''presence/A''
   \<and> currentUser session_no_database = Some ''A''
   \<and> Some ''B'' \<noteq> currentSetupUid session_no_database
   \<and> authUnsubscribe session_no_database \<noteq> None
   \<and> listeners session_no_database = [7, 8]
   \<and> userRef (step session_no_database (AuthStateChanged (Some ''B'') store_ok)) = None
   \<and> currentUser (step session_no_database (AuthStateChanged (Some ''B'') store_ok)) = Some ''B''
   \<and> notifications (step session_no_database (AuthStateChanged (Some ''B'') store_ok)) =
       notifications session_no_database
   \<and> connectionStatus (step session_no_database (AuthStateChanged (Some ''B'') store_ok)) =
       \<lparr>isConnected = True, lastConnected = Some 30, retryCount = 1\<rparr>"
  by (simp add: session_no_database_fields handleAuthStateChange_def setupPresence_def
      handleSetupError_def incrementRetryCount_def scheduleRetry_def Let_def)

text \<open>
  \<open>destroy\<close> on a service that holds the application-state subscription, as every
  initialised service does, throws before it reaches \<open>cleanup\<close>: no listener is called and
  the status is left as it was.
\<close>

lemma destroy_throws_before_cleanup:
  assumes "appStateUnsubscribe s \<noteq> None"
  shows "fst (destroy s) = Inl (TypeError ''this.appStateUnsubscribe is not a function'')
         \<and> notifications (snd (destroy s)) = notifications s
         \<and> connectionStatus (snd (destroy s)) = connectionStatus s
         \<and> listeners (snd (destroy s)) = listeners s"
  using assms by (auto simp add: destroy_def Let_def)

text \<open>
  C10, amended. \<open>cleanup\<close> sets the connection status to disconnected with a retry count
  of 0 and then calls every registered listener with that status, whatever the
  connectivity was. It is run by a sign-out while an identity is current, which is exactly
  \<open>cleanup\<close> followed by forgetting the identity; by the binding of a new identity once
  the binding procedure has passed its two guards (no bind in progress, database handle
  present); and by \<open>destroy\<close> on a service that holds no application-state subscription.
  Each of the three calls every listener registered before it once, with the reset
  status, and calls no listener otherwise.
\<close>

theorem teardown_notifies_reset_status:
  "connectionStatus (cleanup s) = resetStatus (connectionStatus s)
   \<and> notifications (cleanup s) =
       notifications s @ map (\<lambda>cb. (cb, resetStatus (connectionStatus s))) (listeners s)
   \<and> (currentUser s \<noteq> None \<longrightarrow>
        handleAuthStateChange s None rp =
          (cleanup (s\<lparr>currentSetupUid := None\<rparr>))\<lparr>currentUser := None\<rparr>
        \<and> connectionStatus (handleAuthStateChange s None rp) = resetStatus (connectionStatus s)
        \<and> notifications (handleAuthStateChange s None rp) =
            notifications s @ map (\<lambda>cb. (cb, resetStatus (connectionStatus s))) (listeners s))
   \<and> (Some u \<noteq> currentSetupUid s \<and> \<not> setupInProgress s \<and> database (config s) \<noteq> None \<longrightarrow>
        notifications (handleAuthStateChange s (Some u) rp) =
          notifications s @ map (\<lambda>cb. (cb, resetStatus (connectionStatus s))) (listeners s))
   \<and> (appStateUnsubscribe s = None \<longrightarrow>
        fst (destroy s) = Inr ()
        \<and> connectionStatus (snd (destroy s)) = resetStatus (connectionStatus s)
        \<and> notifications (snd (destroy s)) =
            notifications s @ map (\<lambda>cb. (cb, resetStatus (connectionStatus s))) (listeners s))"
proof -
  have signout: "currentUser s \<noteq> None \<Longrightarrow>
        handleAuthStateChange s None rp =
          (cleanup (s\<lparr>currentSetupUid := None\<rparr>))\<lparr>currentUser := None\<rparr>"
    by (simp add: handleAuthStateChange_def Let_def)
  have rebind: "Some u \<noteq> currentSetupUid s \<Longrightarrow> \<not> setupInProgress s \<Longrightarrow>
        database (config s) \<noteq> None \<Longrightarrow>
        notifications (handleAuthStateChange s (Some u) rp) =
          notifications s @ map (\<lambda>cb. (cb, resetStatus (connectionStatus s))) (listeners s)"
    by (simp add: handleAuthStateChange_def setupPresence_notifications)
  have d: "appStateUnsubscribe s = None \<Longrightarrow>
        fst (destroy s) = Inr ()
        \<and> connectionStatus (snd (destroy s)) = resetStatus (connectionStatus s)
        \<and> notifications (snd (destroy s)) =
            notifications s @ map (\<lambda>cb. (cb, resetStatus (connectionStatus s))) (listeners s)"
    by (simp add: destroy_def Let_def cleanup_connectionStatus cleanup_notifications)
  show ?thesis
    using signout rebind d
    by (simp add: cleanup_connectionStatus cleanup_notifications)
qed

theorem teardown_notifies_reset_status_witness:
  "currentUser session_connected \<noteq> None
   \<and> Some ''B'' \<noteq> currentSetupUid session_connected
   \<and> \<not> setupInProgress session_connected
   \<and> database (config session_connected) \<noteq> None
   \<and> isConnected (connectionStatus session_connected)
   \<and> resetStatus (connectionStatus session_connected) =
       \<lparr>isConnected = False, lastConnected = Some 30, retryCount = 0\<rparr>
   \<and> connectionStatus (handleAuthStateChange session_connected None store_ok) =
       \<lparr>isConnected = False, lastConnected = Some 30, retryCount = 0\<rparr>
   \<and> notifications (handleAuthStateChange session_connected None store_ok) =
       notifications session_connected @
         [(7, \<lparr>isConnected = False, lastConnected = Some 30, retryCount = 0\<rparr>),
          (8, \<lparr>isConnected = False, lastConnected = Some 30, retryCount = 0\<rparr>)]
   \<and> notifications (handleAuthStateChange session_connected (Some ''B'') store_ok) =
       notifications session_connected @
         [(7, \<lparr>isConnected = False, lastConnected = Some 30, retryCount = 0\<rparr>),
          (8, \<lparr>isConnected = False, lastConnected = Some 30, retryCount = 0\<rparr>)]
   \<and> appStateUnsubscribe session_uninitialised = None
   \<and> fst (destroy session_uninitialised) = Inr ()
   \<and> notifications (snd (destroy session_uninitialised)) =
       notifications session_uninitialised @
         [(7, \<lparr>isConnected = False, lastConnected = None, retryCount = 0\<rparr>)]"
proof -
  have h: "currentUser session_connected \<noteq> None"
    "Some ''B'' \<noteq> currentSetupUid session_connected"
    "\<not> setupInProgress session_connected"
    "database (config session_connected) \<noteq> None"
    "isConnected (connectionStatus session_connected)"
    "listeners session_connected = [7, 8]"
    "resetStatus (connectionStatus session_connected) =
       \<lparr>isConnected = False, lastConnected = Some 30, retryCount = 0\<rparr>"
    and k: "appStateUnsubscribe session_uninitialised = None"
    "listeners session_uninitialised = [7]"
    "resetStatus (connectionStatus session_uninitialised) =
       \<lparr>isConnected = False, lastConnected = None, retryCount = 0\<rparr>"
    by (simp_all add: session_connected_fields session_uninitialised_fields resetStatus_def)
  from teardown_notifies_reset_status [of session_connected store_ok "''B''"]
       teardown_notifies_reset_status [of session_uninitialised store_ok "''B''"] h k
  show ?thesis by (simp add: cleanup_connectionStatus cleanup_notifications)
qed

end
